theory Spec2Isabelle
  imports Main "HOL-Library.Word"
begin

section \<open>Binary references of go-gabbygrove (binref.go)\<close>

text \<open>
  A shallow embedding of \<^verbatim>\<open>binref.go\<close>: the tagged reference \<^verbatim>\<open>BinaryRef\<close>, its
  validation, its 33-byte binary codec and its constructors.

  Go values are modelled as follows.
  \<^item> A byte is an \<open>8 word\<close>, a byte slice a list of bytes; the nil slice is \<open>[]\<close>.
  \<^item> A pointer field that may be nil is an \<open>option\<close>.
  \<^item> A Go result pair \<^verbatim>\<open>(v, err)\<close> is a pair whose second component is an
    \<open>error option\<close>, \<open>None\<close> being the nil error. Both components are kept, as Go
    returns both.
  \<^item> A method with a pointer receiver returns the new value of the receiver.
  \<^item> A run-time panic is the outcome \<open>Panic\<close>.
\<close>

type_synonym byte = "8 word"

type_synonym RefAlgo = string

subsection \<open>Errors\<close>

text \<open>
  One constructor for each place where \<^verbatim>\<open>binref.go\<close> builds an error, named as the
  specification names it; the Go message is given beside it. \<open>External\<close> stands for
  an error built by a collaborator.
\<close>

datatype error =
    MultipleReferencesSet              \<comment> \<open>"more than one ref in binref"\<close>
  | UnsupportedContentAlgorithm RefAlgo \<comment> \<open>"invalid binary content ref for feed: %s"\<close>
  | InvalidLength nat                  \<comment> \<open>"binref: invalid len:%d"\<close>
  | InvalidContentAlgorithm RefAlgo    \<comment> \<open>"unmarshal: invalid binary content ref for feed: %q"\<close>
  | UnknownDiscriminant byte           \<comment> \<open>"unmarshal: invalid binref type: %x"\<close>
  | UnsupportedReferenceType           \<comment> \<open>"fromRef: invalid ref type: %T"\<close>
  | InvalidPublicKeyLength             \<comment> \<open>"invalid public key"\<close>
  | External string

datatype 'a outcome = Return 'a | Panic

subsection \<open>Data model\<close>

datatype RefType = RefTypeUndefined | RefTypeFeed | RefTypeMessage | RefTypeContent

text \<open>
  Modelled from the spec: the type \<^verbatim>\<open>ContentRef\<close> of this package, declared outside
  \<^verbatim>\<open>binref.go\<close>. The specification describes it as a hash
  identifier carrying its own algorithm tag; \<^verbatim>\<open>binref.go\<close> reads the field
  \<^verbatim>\<open>algo\<close> of it.
\<close>

record ContentRef =
  hash :: "byte list"
  algo :: RefAlgo

text \<open>
  Modelled from the spec: the accessor \<^verbatim>\<open>Algo()\<close> of \<^verbatim>\<open>ContentRef\<close>, the
  "algorithm tag accessor" of the specification.
\<close>

definition Algo :: "ContentRef \<Rightarrow> RefAlgo" where
  "Algo c = algo c"

text \<open>The zero value of \<^verbatim>\<open>ContentRef\<close>, as \<^verbatim>\<open>var newCR ContentRef\<close> declares it.\<close>

definition zeroContentRef :: ContentRef where
  "zeroContentRef = \<lparr>hash = replicate 32 0, algo = []\<rparr>"

text \<open>
  Modelled from the spec: the algorithm names are constants declared outside
  \<^verbatim>\<open>binref.go\<close>. Only their being distinct names matters here.
\<close>

definition RefAlgoFeedGabby :: RefAlgo where
  "RefAlgoFeedGabby = ''ggfeed-v1''"

definition RefAlgoMessageGabby :: RefAlgo where
  "RefAlgoMessageGabby = ''ggmsg-v1''"

definition RefAlgoContentGabby :: RefAlgo where
  "RefAlgoContentGabby = ''gabby-v1-content''"

text \<open>
  \<^verbatim>\<open>BinaryRef\<close>: three pointer fields. The feed and message reference types belong
  to the external reference library and stay abstract (\<open>'f\<close> and \<open>'m\<close>).
\<close>

record ('f, 'm) BinaryRef =
  fr :: "'f option"
  mr :: "'m option"
  cr :: "ContentRef option"

definition zeroBinaryRef :: "('f, 'm) BinaryRef" where
  "zeroBinaryRef = \<lparr>fr = None, mr = None, cr = None\<rparr>"

text \<open>A value of the interface \<^verbatim>\<open>refs.Ref\<close>, by its dynamic type.\<close>

datatype ('f, 'm) Ref =
    IsFeedRef 'f
  | IsMessageRef 'm
  | IsContentRef ContentRef
  | IsOther

subsection \<open>Collaborators\<close>

text \<open>
  The functions that \<^verbatim>\<open>binref.go\<close> calls and does not define are parameters of the
  model: those of the reference library (\<^verbatim>\<open>NewFeedRefFromBytes\<close>,
  \<^verbatim>\<open>NewMessageRefFromBytes\<close>, \<^verbatim>\<open>PubKey\<close>, \<^verbatim>\<open>CopyHashTo\<close>) and the binary
  codec of \<^verbatim>\<open>ContentRef\<close>.
  \<^verbatim>\<open>CopyHashTo\<close> takes the buffer and returns its new contents;
  \<^verbatim>\<open>ContentRef.UnmarshalBinary\<close> takes the receiver and returns its new value.
\<close>

record ('f, 'm) collaborators =
  NewFeedRefFromBytes :: "byte list \<Rightarrow> RefAlgo \<Rightarrow> 'f \<times> error option"
  NewMessageRefFromBytes :: "byte list \<Rightarrow> RefAlgo \<Rightarrow> 'm \<times> error option"
  PubKey :: "'f \<Rightarrow> byte list"
  CopyHashTo :: "'m \<Rightarrow> byte list \<Rightarrow> byte list \<times> error option"
  ContentRef_MarshalBinary :: "ContentRef \<Rightarrow> byte list \<times> error option"
  ContentRef_UnmarshalBinary :: "ContentRef \<Rightarrow> byte list \<Rightarrow> ContentRef \<times> error option"

subsection \<open>The functions of binref.go\<close>

definition binrefSize :: nat where
  "binrefSize = 33"

definition PublicKeySize :: nat where
  "PublicKeySize = 32"

definition valid :: "('f, 'm) BinaryRef \<Rightarrow> RefType \<times> error option" where
  "valid ref =
     (let i = (0::nat); t = RefTypeUndefined;
          (i, t) = (if fr ref \<noteq> None then (i + 1, RefTypeFeed) else (i, t));
          (i, t) = (if mr ref \<noteq> None then (i + 1, RefTypeMessage) else (i, t));
          (i, t) = (if cr ref \<noteq> None then (i + 1, RefTypeContent) else (i, t))
      in if i > 1 then (RefTypeUndefined, Some MultipleReferencesSet) else (t, None))"

text \<open>
  \<^verbatim>\<open>MarshalBinary\<close>. Dereferencing a nil field and slicing \<^verbatim>\<open>crBytes[1:]\<close> of an
  empty slice panic in Go.
\<close>

definition MarshalBinary ::
  "('f, 'm) collaborators \<Rightarrow> ('f, 'm) BinaryRef \<Rightarrow> (byte list \<times> error option) outcome" where
  "MarshalBinary L ref =
     (case valid ref of
        (t, Some err) \<Rightarrow> Return ([], Some err)
      | (t, None) \<Rightarrow>
          (case t of
             RefTypeFeed \<Rightarrow>
               (case fr ref of
                  None \<Rightarrow> Panic
                | Some f \<Rightarrow> Return (0x01 # PubKey L f, None))
           | RefTypeMessage \<Rightarrow>
               (case mr ref of
                  None \<Rightarrow> Panic
                | Some m \<Rightarrow>
                    (let (hd', err) = CopyHashTo L m (replicate 32 0)
                     in Return (0x02 # hd', err)))
           | RefTypeContent \<Rightarrow>
               (case cr ref of
                  None \<Rightarrow> Panic
                | Some c \<Rightarrow>
                    if algo c \<noteq> RefAlgoContentGabby
                    then Return ([], Some (UnsupportedContentAlgorithm (algo c)))
                    else
                      (let (crBytes, err) = ContentRef_MarshalBinary L c
                       in case crBytes of
                            [] \<Rightarrow> Panic
                          | b # rest \<Rightarrow> Return (0x03 # rest, err)))
           | RefTypeUndefined \<Rightarrow> Return ([], None)))"

text \<open>
  \<^verbatim>\<open>UnmarshalBinary\<close> has a pointer receiver: the result is the receiver after the
  call, with the error.
\<close>

definition UnmarshalBinary ::
  "('f, 'm) collaborators \<Rightarrow> ('f, 'm) BinaryRef \<Rightarrow> byte list \<Rightarrow> ('f, 'm) BinaryRef \<times> error option" where
  "UnmarshalBinary L ref data =
     (let n = length data in
      if n \<noteq> binrefSize then (ref, Some (InvalidLength n))
      else if data ! 0 = 0x01 then
        (case NewFeedRefFromBytes L (drop 1 data) RefAlgoFeedGabby of
           (f, Some err) \<Rightarrow> (ref, Some err)
         | (f, None) \<Rightarrow> (ref\<lparr>fr := Some f\<rparr>, None))
      else if data ! 0 = 0x02 then
        (case NewMessageRefFromBytes L (drop 1 data) RefAlgoMessageGabby of
           (m, Some err) \<Rightarrow> (ref, Some err)
         | (m, None) \<Rightarrow> (ref\<lparr>mr := Some m\<rparr>, None))
      else if data ! 0 = 0x03 then
        (case ContentRef_UnmarshalBinary L zeroContentRef (0x02 # drop 1 data) of
           (newCR, Some err) \<Rightarrow> (ref, Some err)
         | (newCR, None) \<Rightarrow>
             if Algo newCR \<noteq> RefAlgoContentGabby
             then (ref, Some (InvalidContentAlgorithm (algo newCR)))
             else (ref\<lparr>cr := Some newCR\<rparr>, None))
      else (ref, Some (UnknownDiscriminant (data ! 0))))"

definition Size :: "('f, 'm) BinaryRef \<Rightarrow> nat" where
  "Size ref = binrefSize"

definition fromRef :: "('f, 'm) Ref \<Rightarrow> ('f, 'm) BinaryRef \<times> error option" where
  "fromRef r =
     (let br = zeroBinaryRef in
      case r of
        IsFeedRef tr \<Rightarrow> (br\<lparr>fr := Some tr\<rparr>, None)
      | IsMessageRef tr \<Rightarrow> (br\<lparr>mr := Some tr\<rparr>, None)
      | IsContentRef tr \<Rightarrow> (br\<lparr>cr := Some tr\<rparr>, None)
      | IsOther \<Rightarrow> (zeroBinaryRef, Some UnsupportedReferenceType))"

definition NewBinaryRef :: "('f, 'm) Ref \<Rightarrow> ('f, 'm) BinaryRef \<times> error option" where
  "NewBinaryRef r = fromRef r"

text \<open>
  \<^verbatim>\<open>refFromPubKey\<close> returns a pointer: \<open>None\<close> is the nil pointer. After the
  length check it returns the new reference together with whatever error the
  library's parser gave.
\<close>

definition refFromPubKey ::
  "('f, 'm) collaborators \<Rightarrow> byte list \<Rightarrow> ('f, 'm) BinaryRef option \<times> error option" where
  "refFromPubKey L pk =
     (if length pk \<noteq> PublicKeySize then (None, Some InvalidPublicKeyLength)
      else
        (let (f, err) = NewFeedRefFromBytes L pk RefAlgoFeedGabby
         in (Some \<lparr>fr = Some f, mr = None, cr = None\<rparr>, err)))"

subsection \<open>Derived notions used by the properties\<close>

text \<open>How many of the three members are set (non-nil).\<close>

definition members :: "('f, 'm) BinaryRef \<Rightarrow> nat" where
  "members ref =
     (if fr ref \<noteq> None then 1 else 0) + (if mr ref \<noteq> None then 1 else 0)
       + (if cr ref \<noteq> None then 1 else 0)"

text \<open>The discriminant byte of the wire form, by kind.\<close>

definition discriminant :: "RefType \<Rightarrow> byte" where
  "discriminant t =
     (case t of RefTypeUndefined \<Rightarrow> 0x00 | RefTypeFeed \<Rightarrow> 0x01
      | RefTypeMessage \<Rightarrow> 0x02 | RefTypeContent \<Rightarrow> 0x03)"

text \<open>
  The payload bytes of a reference: the public key of a feed reference, the hash that
  \<^verbatim>\<open>CopyHashTo\<close> writes into a 32-byte buffer for a message reference, the hash
  of a content reference.
\<close>

definition payload :: "('f, 'm) collaborators \<Rightarrow> ('f, 'm) BinaryRef \<Rightarrow> byte list" where
  "payload L ref =
     (case fr ref of
        Some f \<Rightarrow> PubKey L f
      | None \<Rightarrow>
          (case mr ref of
             Some m \<Rightarrow> fst (CopyHashTo L m (replicate 32 0))
           | None \<Rightarrow> (case cr ref of Some c \<Rightarrow> hash c | None \<Rightarrow> [])))"

text \<open>
  A valid reference holds exactly one member, its payload has 32 bytes (in Go the
  payloads are arrays \<^verbatim>\<open>[32]byte\<close>), copying the hash of a message reference into a
  32-byte buffer gives no error, and a content reference has the supported algorithm.
\<close>

definition valid_reference :: "('f, 'm) collaborators \<Rightarrow> ('f, 'm) BinaryRef \<Rightarrow> bool" where
  "valid_reference L ref \<longleftrightarrow>
     members ref = 1 \<and> length (payload L ref) = 32
     \<and> (case mr ref of Some m \<Rightarrow> snd (CopyHashTo L m (replicate 32 0)) = None | None \<Rightarrow> True)
     \<and> (case cr ref of Some c \<Rightarrow> algo c = RefAlgoContentGabby | None \<Rightarrow> True)"

text \<open>
  Modelled from the spec: what the collaborators, all defined outside \<^verbatim>\<open>binref.go\<close>,
  return for the members of one reference. A public key has 32 bytes (Go's
  \<^verbatim>\<open>[32]byte\<close>); \<^verbatim>\<open>CopyHashTo\<close> cannot resize the caller's 32-byte buffer; and
  the binary form of a content reference, when its marshaller gives no error, is one
  algorithm-tag byte followed by the 32 bytes of its hash.
\<close>

definition collaborator_payloads_ok ::
  "('f, 'm) collaborators \<Rightarrow> ('f, 'm) BinaryRef \<Rightarrow> bool" where
  "collaborator_payloads_ok L ref \<longleftrightarrow>
     (case fr ref of Some f \<Rightarrow> length (PubKey L f) = 32 | None \<Rightarrow> True)
     \<and> (case mr ref of
          Some m \<Rightarrow> length (fst (CopyHashTo L m (replicate 32 0))) = 32
        | None \<Rightarrow> True)
     \<and> (case cr ref of
          Some c \<Rightarrow> snd (ContentRef_MarshalBinary L c) \<noteq> None
                    \<or> (length (fst (ContentRef_MarshalBinary L c)) = 33
                        \<and> drop 1 (fst (ContentRef_MarshalBinary L c)) = hash c)
        | None \<Rightarrow> True)"

text \<open>
  Modelled from the spec: the contract of the reference library's feed parser
  (\<^verbatim>\<open>NewFeedRefFromBytes\<close> with \<^verbatim>\<open>PubKey\<close>), defined outside \<^verbatim>\<open>binref.go\<close>. Parsing 32 bytes as a feed public key under the
  "gabby" feed algorithm succeeds, and the reference it gives has these bytes as its
  public key.
\<close>

definition feed_parser_ok :: "('f, 'm) collaborators \<Rightarrow> bool" where
  "feed_parser_ok L \<longleftrightarrow>
     (\<forall>b. length b = 32 \<longrightarrow>
        snd (NewFeedRefFromBytes L b RefAlgoFeedGabby) = None
        \<and> PubKey L (fst (NewFeedRefFromBytes L b RefAlgoFeedGabby)) = b)"

text \<open>
  Modelled from the spec: the contract of the reference library's message parser
  (\<^verbatim>\<open>NewMessageRefFromBytes\<close> with \<^verbatim>\<open>CopyHashTo\<close>), defined outside
  \<^verbatim>\<open>binref.go\<close>. Parsing 32 bytes as a message hash under the
  "gabby" message algorithm succeeds, and copying the hash of the reference it gives
  into a 32-byte buffer yields these bytes.
\<close>

definition message_parser_ok :: "('f, 'm) collaborators \<Rightarrow> bool" where
  "message_parser_ok L \<longleftrightarrow>
     (\<forall>b. length b = 32 \<longrightarrow>
        snd (NewMessageRefFromBytes L b RefAlgoMessageGabby) = None
        \<and> CopyHashTo L (fst (NewMessageRefFromBytes L b RefAlgoMessageGabby)) (replicate 32 0)
            = (b, None))"

text \<open>
  Modelled from the spec: the contract of the binary codec of \<^verbatim>\<open>ContentRef\<close>
  (its \<^verbatim>\<open>MarshalBinary\<close> and \<^verbatim>\<open>UnmarshalBinary\<close>), defined outside
  \<^verbatim>\<open>binref.go\<close>. Marshalling a content reference of the supported
  algorithm produces one algorithm-tag byte followed by its 32 hash bytes;
  unmarshalling the tag \<open>0x02\<close> followed by 32 bytes gives the content reference of the
  supported algorithm with these bytes as its hash.
\<close>

definition content_codec_ok :: "('f, 'm) collaborators \<Rightarrow> bool" where
  "content_codec_ok L \<longleftrightarrow>
     (\<forall>c. algo c = RefAlgoContentGabby \<and> length (hash c) = 32 \<longrightarrow>
        (\<exists>t. ContentRef_MarshalBinary L c = (t # hash c, None)))
     \<and> (\<forall>h. length h = 32 \<longrightarrow>
          ContentRef_UnmarshalBinary L zeroContentRef (0x02 # h)
            = (\<lparr>hash = h, algo = RefAlgoContentGabby\<rparr>, None))"

text \<open>
  Modelled from the spec: an executable model of the collaborators, all of them
  defined outside \<^verbatim>\<open>binref.go\<close>. A feed or message reference is its 32 bytes with its
  algorithm; the parsers fail on any other length; \<^verbatim>\<open>CopyHashTo\<close> fails unless the
  buffer has the length of the hash. The codec of \<^verbatim>\<open>ContentRef\<close> writes and reads
  the tag \<open>0x02\<close>; the parameter \<open>a\<close> is the algorithm that the tag stands for
  (\<open>RefAlgoContentGabby\<close> in the specification).
\<close>

definition model_collaborators ::
  "RefAlgo \<Rightarrow> (byte list \<times> RefAlgo, byte list \<times> RefAlgo) collaborators" where
  "model_collaborators a =
     \<lparr>NewFeedRefFromBytes = (\<lambda>b al.
        if length b \<noteq> 32 then ((replicate 32 0, []), Some (External ''invalid reference size''))
        else ((b, al), None)),
      NewMessageRefFromBytes = (\<lambda>b al.
        if length b \<noteq> 32 then ((replicate 32 0, []), Some (External ''invalid reference size''))
        else ((b, al), None)),
      PubKey = fst,
      CopyHashTo = (\<lambda>m buf.
        if length buf \<noteq> length (fst m) then (buf, Some (External ''invalid buffer size''))
        else (fst m, None)),
      ContentRef_MarshalBinary = (\<lambda>c.
        if algo c = a then (0x02 # hash c, None)
        else ([], Some (External ''invalid content algorithm''))),
      ContentRef_UnmarshalBinary = (\<lambda>z data.
        if length data \<noteq> 33 then (z, Some (External ''invalid length''))
        else if data ! 0 = 0x02 then (\<lparr>hash = drop 1 data, algo = a\<rparr>, None)
        else (z, Some (External ''invalid content reference type'')))\<rparr>"

text \<open>
  A sequence of \<^verbatim>\<open>UnmarshalBinary\<close> calls on one receiver; a call that fails
  returns its error to the caller, and the next call goes on with the receiver as the
  failed call left it.
\<close>

fun UnmarshalBinary_seq ::
  "('f, 'm) collaborators \<Rightarrow> ('f, 'm) BinaryRef \<Rightarrow> byte list list \<Rightarrow> ('f, 'm) BinaryRef" where
  "UnmarshalBinary_seq L ref [] = ref"
| "UnmarshalBinary_seq L ref (data # rest) =
     UnmarshalBinary_seq L (fst (UnmarshalBinary L ref data)) rest"

text \<open>The input decodes: \<^verbatim>\<open>UnmarshalBinary\<close> into the zero value returns no error.\<close>

definition decodes :: "('f, 'm) collaborators \<Rightarrow> byte list \<Rightarrow> bool" where
  "decodes L data \<longleftrightarrow> snd (UnmarshalBinary L zeroBinaryRef data) = None"

text \<open>Every member that is set is the one the discriminant \<open>t\<close> selects.\<close>

definition only_kind :: "byte \<Rightarrow> ('f, 'm) BinaryRef \<Rightarrow> bool" where
  "only_kind t ref \<longleftrightarrow>
     (fr ref = None \<or> t = 0x01) \<and> (mr ref = None \<or> t = 0x02) \<and> (cr ref = None \<or> t = 0x03)"

section \<open>Properties\<close>

subsection \<open>The model of the collaborators meets the contracts\<close>

lemma model_feed_parser_ok: "feed_parser_ok (model_collaborators a)"
  by (simp add: feed_parser_ok_def model_collaborators_def)

lemma model_message_parser_ok: "message_parser_ok (model_collaborators a)"
  by (simp add: message_parser_ok_def model_collaborators_def)

lemma model_content_codec_ok: "content_codec_ok (model_collaborators RefAlgoContentGabby)"
  by (simp add: content_codec_ok_def model_collaborators_def)

subsection \<open>Round trip\<close>

lemma members_one_cases:
  assumes "members ref = 1"
  obtains (feed) f where "fr ref = Some f" "mr ref = None" "cr ref = None"
  | (message) m where "fr ref = None" "mr ref = Some m" "cr ref = None"
  | (content) c where "fr ref = None" "mr ref = None" "cr ref = Some c"
  using assms by (auto simp: members_def split: if_splits)

lemma roundtrip_feed:
  assumes "feed_parser_ok L" "fr ref = Some f" "mr ref = None" "cr ref = None"
    "length (PubKey L f) = 32"
  shows "\<exists>ref'. MarshalBinary L ref = Return (0x01 # PubKey L f, None)
     \<and> UnmarshalBinary L zeroBinaryRef (0x01 # PubKey L f) = (ref', None)
     \<and> valid ref' = valid ref \<and> payload L ref' = payload L ref"
proof -
  let ?p = "NewFeedRefFromBytes L (PubKey L f) RefAlgoFeedGabby"
  from assms(1,5) have p: "snd ?p = None" "PubKey L (fst ?p) = PubKey L f"
    by (simp_all add: feed_parser_ok_def)
  have m: "MarshalBinary L ref = Return (0x01 # PubKey L f, None)"
    using assms(2-4) by (simp add: MarshalBinary_def valid_def)
  have u: "UnmarshalBinary L zeroBinaryRef (0x01 # PubKey L f)
             = (zeroBinaryRef\<lparr>fr := Some (fst ?p)\<rparr>, None)"
    using assms(5) p(1) by (cases ?p) (simp add: UnmarshalBinary_def binrefSize_def)
  show ?thesis
    using m u p(2) assms(2-4) by (simp add: valid_def payload_def zeroBinaryRef_def)
qed

lemma roundtrip_message:
  assumes "message_parser_ok L" "fr ref = None" "mr ref = Some m" "cr ref = None"
    "CopyHashTo L m (replicate 32 0) = (h, None)" "length h = 32"
  shows "\<exists>ref'. MarshalBinary L ref = Return (0x02 # h, None)
     \<and> UnmarshalBinary L zeroBinaryRef (0x02 # h) = (ref', None)
     \<and> valid ref' = valid ref \<and> payload L ref' = payload L ref"
proof -
  let ?p = "NewMessageRefFromBytes L h RefAlgoMessageGabby"
  from assms(1,6) have p: "snd ?p = None" "CopyHashTo L (fst ?p) (replicate 32 0) = (h, None)"
    by (simp_all add: message_parser_ok_def)
  have m: "MarshalBinary L ref = Return (0x02 # h, None)"
    using assms(2-5) by (simp add: MarshalBinary_def valid_def)
  have u: "UnmarshalBinary L zeroBinaryRef (0x02 # h)
             = (zeroBinaryRef\<lparr>mr := Some (fst ?p)\<rparr>, None)"
    using assms(6) p(1) by (cases ?p) (simp add: UnmarshalBinary_def binrefSize_def)
  show ?thesis
    using m u p(2) assms(2-5) by (simp add: valid_def payload_def zeroBinaryRef_def)
qed

lemma roundtrip_content:
  assumes "content_codec_ok L" "fr ref = None" "mr ref = None" "cr ref = Some c"
    "algo c = RefAlgoContentGabby" "length (hash c) = 32"
  shows "\<exists>ref'. MarshalBinary L ref = Return (0x03 # hash c, None)
     \<and> UnmarshalBinary L zeroBinaryRef (0x03 # hash c) = (ref', None)
     \<and> valid ref' = valid ref \<and> payload L ref' = payload L ref"
proof -
  from assms(1,5,6) obtain t where t: "ContentRef_MarshalBinary L c = (t # hash c, None)"
    by (auto simp: content_codec_ok_def)
  from assms(1,6) have d: "ContentRef_UnmarshalBinary L zeroContentRef (0x02 # hash c)
      = (\<lparr>hash = hash c, algo = RefAlgoContentGabby\<rparr>, None)"
    by (simp add: content_codec_ok_def)
  have m: "MarshalBinary L ref = Return (0x03 # hash c, None)"
    using assms(2-5) t by (simp add: MarshalBinary_def valid_def)
  have u: "UnmarshalBinary L zeroBinaryRef (0x03 # hash c)
             = (zeroBinaryRef\<lparr>cr := Some \<lparr>hash = hash c, algo = RefAlgoContentGabby\<rparr>\<rparr>, None)"
    using assms(6) d by (simp add: UnmarshalBinary_def binrefSize_def Algo_def)
  show ?thesis
    using m u assms(2-5) by (simp add: valid_def payload_def zeroBinaryRef_def)
qed

text \<open>
  C1. For every valid reference holding exactly one of a feed, message or content
  reference (the content reference having the supported algorithm), \<^verbatim>\<open>MarshalBinary\<close>
  returns 33 bytes and no error, and \<^verbatim>\<open>UnmarshalBinary\<close> of these bytes into the
  zero value succeeds with a reference of the same kind and the same 32 payload bytes.
  The collaborators are any that meet their contracts.
\<close>

theorem marshal_unmarshal_roundtrip:
  assumes "feed_parser_ok L" "message_parser_ok L" "content_codec_ok L"
    and "valid_reference L ref"
  shows "\<exists>bs ref'. MarshalBinary L ref = Return (bs, None) \<and> length bs = 33
     \<and> UnmarshalBinary L zeroBinaryRef bs = (ref', None)
     \<and> valid ref' = valid ref \<and> payload L ref' = payload L ref
     \<and> length (payload L ref') = 32"
proof -
  from assms(4) have one: "members ref = 1" and len: "length (payload L ref) = 32"
    by (simp_all add: valid_reference_def)
  from one show ?thesis
  proof (cases rule: members_one_cases)
    case (feed f)
    with len have "length (PubKey L f) = 32" by (simp add: payload_def)
    from roundtrip_feed [OF assms(1) feed this] this len show ?thesis by auto
  next
    case (message m)
    obtain h e where he: "CopyHashTo L m (replicate 32 0) = (h, e)"
      by (cases "CopyHashTo L m (replicate 32 0)")
    with assms(4) message len have "e = None" "length h = 32"
      by (simp_all add: valid_reference_def payload_def)
    with he roundtrip_message [OF assms(2) message, of h] len show ?thesis by auto
  next
    case (content c)
    with assms(4) len have "algo c = RefAlgoContentGabby" "length (hash c) = 32"
      by (simp_all add: valid_reference_def payload_def)
    from roundtrip_content [OF assms(3) content this] this(2) len show ?thesis by auto
  qed
qed

text \<open>
  The round trip at a feed, a message and a content reference, with the model of the
  collaborators.
\<close>

theorem marshal_unmarshal_roundtrip_witness:
  "(\<exists>bs ref'.
      MarshalBinary (model_collaborators RefAlgoContentGabby)
        \<lparr>fr = Some (replicate 32 0x11, ''ed25519''), mr = None, cr = None\<rparr> = Return (bs, None)
      \<and> length bs = 33
      \<and> UnmarshalBinary (model_collaborators RefAlgoContentGabby) zeroBinaryRef bs = (ref', None)
      \<and> valid ref' = valid \<lparr>fr = Some (replicate 32 (0x11 :: byte), ''ed25519''), mr = None :: (byte list \<times> RefAlgo) option, cr = None\<rparr>
      \<and> payload (model_collaborators RefAlgoContentGabby) ref'
          = payload (model_collaborators RefAlgoContentGabby)
              \<lparr>fr = Some (replicate 32 0x11, ''ed25519''), mr = None, cr = None\<rparr>
      \<and> length (payload (model_collaborators RefAlgoContentGabby) ref') = 32)
   \<and> (\<exists>bs ref'.
      MarshalBinary (model_collaborators RefAlgoContentGabby)
        \<lparr>fr = None, mr = Some (replicate 32 0x22, RefAlgoMessageGabby), cr = None\<rparr> = Return (bs, None)
      \<and> length bs = 33
      \<and> UnmarshalBinary (model_collaborators RefAlgoContentGabby) zeroBinaryRef bs = (ref', None)
      \<and> valid ref' = valid \<lparr>fr = None :: (byte list \<times> RefAlgo) option, mr = Some (replicate 32 (0x22 :: byte), RefAlgoMessageGabby), cr = None\<rparr>
      \<and> payload (model_collaborators RefAlgoContentGabby) ref'
          = payload (model_collaborators RefAlgoContentGabby)
              \<lparr>fr = None, mr = Some (replicate 32 0x22, RefAlgoMessageGabby), cr = None\<rparr>
      \<and> length (payload (model_collaborators RefAlgoContentGabby) ref') = 32)
   \<and> (\<exists>bs ref'.
      MarshalBinary (model_collaborators RefAlgoContentGabby)
        \<lparr>fr = None, mr = None, cr = Some \<lparr>hash = replicate 32 0x33, algo = RefAlgoContentGabby\<rparr>\<rparr>
          = Return (bs, None)
      \<and> length bs = 33
      \<and> UnmarshalBinary (model_collaborators RefAlgoContentGabby) zeroBinaryRef bs = (ref', None)
      \<and> valid ref' = valid \<lparr>fr = None :: (byte list \<times> RefAlgo) option, mr = None :: (byte list \<times> RefAlgo) option, cr = Some \<lparr>hash = replicate 32 0x33, algo = RefAlgoContentGabby\<rparr>\<rparr>
      \<and> payload (model_collaborators RefAlgoContentGabby) ref'
          = payload (model_collaborators RefAlgoContentGabby)
              \<lparr>fr = None, mr = None, cr = Some \<lparr>hash = replicate 32 0x33, algo = RefAlgoContentGabby\<rparr>\<rparr>
      \<and> length (payload (model_collaborators RefAlgoContentGabby) ref') = 32)"
proof -
  let ?L = "model_collaborators RefAlgoContentGabby"
  have f: "valid_reference ?L \<lparr>fr = Some (replicate 32 0x11, ''ed25519''), mr = None, cr = None\<rparr>"
    by (simp add: valid_reference_def members_def payload_def model_collaborators_def)
  have m: "valid_reference ?L \<lparr>fr = None, mr = Some (replicate 32 0x22, RefAlgoMessageGabby), cr = None\<rparr>"
    by (simp add: valid_reference_def members_def payload_def model_collaborators_def)
  have c: "valid_reference ?L
      \<lparr>fr = None, mr = None, cr = Some \<lparr>hash = replicate 32 0x33, algo = RefAlgoContentGabby\<rparr>\<rparr>"
    by (simp add: valid_reference_def members_def payload_def model_collaborators_def)
  note rt = marshal_unmarshal_roundtrip
    [OF model_feed_parser_ok model_message_parser_ok model_content_codec_ok]
  from rt [OF f] rt [OF m] rt [OF c] show ?thesis by (intro conjI)
qed

subsection \<open>The wire form\<close>

lemma valid_kinds:
  assumes "valid ref = (t, None)"
  shows "(t = RefTypeUndefined \<and> fr ref = None \<and> mr ref = None \<and> cr ref = None)
     \<or> (t = RefTypeFeed \<and> fr ref \<noteq> None \<and> mr ref = None \<and> cr ref = None)
     \<or> (t = RefTypeMessage \<and> fr ref = None \<and> mr ref \<noteq> None \<and> cr ref = None)
     \<or> (t = RefTypeContent \<and> fr ref = None \<and> mr ref = None \<and> cr ref \<noteq> None)"
  using assms by (auto simp: valid_def split: if_splits)

lemma MarshalBinary_success_valid:
  assumes "MarshalBinary L ref = Return (bs, None)"
  shows "valid ref = (fst (valid ref), None)"
  using assms by (cases "valid ref"; cases "snd (valid ref)") (auto simp: MarshalBinary_def)

text \<open>
  C2. \<^verbatim>\<open>Size\<close> is 33 for every reference, whatever its members are, the zero value
  included. And whenever \<^verbatim>\<open>MarshalBinary\<close> returns no error and a non-empty result,
  exactly one member is set and the result has exactly 33 bytes: the discriminant byte
  of that member (\<open>0x01\<close> feed, \<open>0x02\<close> message, \<open>0x03\<close> content) followed by the 32
  payload bytes of the reference. The collaborators are any that return the payloads
  as Go's types and the specification give them.
\<close>

theorem MarshalBinary_wire_form:
  "Size r = 33 \<and> Size (zeroBinaryRef :: ('f, 'm) BinaryRef) = 33
   \<and> (collaborator_payloads_ok L ref \<and> MarshalBinary L ref = Return (bs, None) \<and> bs \<noteq> []
      \<longrightarrow> length bs = 33 \<and> length (payload L ref) = 32
          \<and> bs = discriminant (fst (valid ref)) # payload L ref
          \<and> ((fr ref \<noteq> None \<and> mr ref = None \<and> cr ref = None \<and> bs ! 0 = 0x01)
             \<or> (fr ref = None \<and> mr ref \<noteq> None \<and> cr ref = None \<and> bs ! 0 = 0x02)
             \<or> (fr ref = None \<and> mr ref = None \<and> cr ref \<noteq> None \<and> bs ! 0 = 0x03)))"
proof (intro conjI impI)
  show "Size r = 33"
    by (simp add: Size_def binrefSize_def)
next
  show "Size (zeroBinaryRef :: ('f, 'm) BinaryRef) = 33"
    by (simp add: Size_def binrefSize_def)
next
  assume a: "collaborator_payloads_ok L ref \<and> MarshalBinary L ref = Return (bs, None) \<and> bs \<noteq> []"
  then have ok: "collaborator_payloads_ok L ref" and m: "MarshalBinary L ref = Return (bs, None)"
    and ne: "bs \<noteq> []"
    by simp_all
  let ?t = "fst (valid ref)"
  have v: "valid ref = (?t, None)"
    by (rule MarshalBinary_success_valid [OF m])
  let ?goal = "length bs = 33 \<and> length (payload L ref) = 32
     \<and> bs = discriminant ?t # payload L ref
     \<and> ((fr ref \<noteq> None \<and> mr ref = None \<and> cr ref = None \<and> bs ! 0 = 0x01)
        \<or> (fr ref = None \<and> mr ref \<noteq> None \<and> cr ref = None \<and> bs ! 0 = 0x02)
        \<or> (fr ref = None \<and> mr ref = None \<and> cr ref \<noteq> None \<and> bs ! 0 = 0x03))"
  from valid_kinds [OF v] have ?goal
  proof (elim disjE conjE)
    assume "?t = RefTypeUndefined"
    with v m ne show ?goal
      by (cases "valid ref") (simp add: MarshalBinary_def)
  next
    assume k: "?t = RefTypeFeed" "fr ref \<noteq> None" "mr ref = None" "cr ref = None"
    then obtain f where f: "fr ref = Some f" by auto
    from v k(1) have "valid ref = (RefTypeFeed, None)" by simp
    with m f have "bs = 0x01 # PubKey L f"
      by (simp add: MarshalBinary_def)
    moreover from ok f have "length (PubKey L f) = 32"
      by (simp add: collaborator_payloads_ok_def)
    ultimately show ?goal
      using k f by (simp add: payload_def discriminant_def)
  next
    assume k: "?t = RefTypeMessage" "fr ref = None" "mr ref \<noteq> None" "cr ref = None"
    then obtain x where x: "mr ref = Some x" by auto
    from v k(1) have "valid ref = (RefTypeMessage, None)" by simp
    with m x have "bs = 0x02 # fst (CopyHashTo L x (replicate 32 0))"
      by (auto simp: MarshalBinary_def split: prod.splits)
    moreover from ok x have "length (fst (CopyHashTo L x (replicate 32 0))) = 32"
      by (simp add: collaborator_payloads_ok_def)
    ultimately show ?goal
      using k x by (simp add: payload_def discriminant_def)
  next
    assume k: "?t = RefTypeContent" "fr ref = None" "mr ref = None" "cr ref \<noteq> None"
    then obtain c where c: "cr ref = Some c" by auto
    obtain cb e where cb: "ContentRef_MarshalBinary L c = (cb, e)"
      by (cases "ContentRef_MarshalBinary L c")
    from v k(1) have "valid ref = (RefTypeContent, None)" by simp
    with m c cb ne have r: "e = None" "cb \<noteq> []" "bs = 0x03 # tl cb"
      by (auto simp: MarshalBinary_def split: if_splits list.splits)
    with ok c cb have "length cb = 33" "drop 1 cb = hash c"
      by (simp_all add: collaborator_payloads_ok_def)
    with r have "bs = 0x03 # hash c" "length (hash c) = 32"
      by (cases cb; simp)+
    then show ?goal
      using k c by (simp add: payload_def discriminant_def)
  qed
  then show "length bs = 33" and "length (payload L ref) = 32"
    and "bs = discriminant ?t # payload L ref"
    and "(fr ref \<noteq> None \<and> mr ref = None \<and> cr ref = None \<and> bs ! 0 = 0x01)
        \<or> (fr ref = None \<and> mr ref \<noteq> None \<and> cr ref = None \<and> bs ! 0 = 0x02)
        \<or> (fr ref = None \<and> mr ref = None \<and> cr ref \<noteq> None \<and> bs ! 0 = 0x03)"
    by blast+
qed

text \<open>
  \<^verbatim>\<open>Size\<close> of a reference with two members set and of the zero value, and the wire
  forms of a feed, a message and a content reference with the model of the
  collaborators.
\<close>

theorem MarshalBinary_wire_form_witness:
  "Size \<lparr>fr = Some (replicate 32 (0x11 :: byte), RefAlgoFeedGabby),
         mr = Some (replicate 32 (0x22 :: byte), RefAlgoMessageGabby), cr = None\<rparr> = 33
   \<and> Size (zeroBinaryRef :: (byte list \<times> RefAlgo, byte list \<times> RefAlgo) BinaryRef) = 33
   \<and> MarshalBinary (model_collaborators RefAlgoContentGabby)
        \<lparr>fr = Some (replicate 32 0x11, RefAlgoFeedGabby), mr = None, cr = None\<rparr>
       = Return (0x01 # replicate 32 0x11, None)
   \<and> 0x01 # replicate 32 (0x11 :: byte)
       = discriminant (fst (valid \<lparr>fr = Some (replicate 32 (0x11 :: byte), RefAlgoFeedGabby),
            mr = None :: (byte list \<times> RefAlgo) option, cr = None\<rparr>))
         # payload (model_collaborators RefAlgoContentGabby)
             \<lparr>fr = Some (replicate 32 0x11, RefAlgoFeedGabby), mr = None, cr = None\<rparr>
   \<and> MarshalBinary (model_collaborators RefAlgoContentGabby)
        \<lparr>fr = None, mr = Some (replicate 32 0x22, RefAlgoMessageGabby), cr = None\<rparr>
       = Return (0x02 # replicate 32 0x22, None)
   \<and> 0x02 # replicate 32 (0x22 :: byte)
       = discriminant (fst (valid \<lparr>fr = None :: (byte list \<times> RefAlgo) option,
            mr = Some (replicate 32 (0x22 :: byte), RefAlgoMessageGabby), cr = None\<rparr>))
         # payload (model_collaborators RefAlgoContentGabby)
             \<lparr>fr = None, mr = Some (replicate 32 0x22, RefAlgoMessageGabby), cr = None\<rparr>
   \<and> MarshalBinary (model_collaborators RefAlgoContentGabby)
        \<lparr>fr = None, mr = None, cr = Some \<lparr>hash = replicate 32 0x33, algo = RefAlgoContentGabby\<rparr>\<rparr>
       = Return (0x03 # replicate 32 0x33, None)
   \<and> 0x03 # replicate 32 (0x33 :: byte)
       = discriminant (fst (valid \<lparr>fr = None :: (byte list \<times> RefAlgo) option,
            mr = None :: (byte list \<times> RefAlgo) option,
            cr = Some \<lparr>hash = replicate 32 0x33, algo = RefAlgoContentGabby\<rparr>\<rparr>))
         # payload (model_collaborators RefAlgoContentGabby)
             \<lparr>fr = None, mr = None,
              cr = Some \<lparr>hash = replicate 32 0x33, algo = RefAlgoContentGabby\<rparr>\<rparr>
   \<and> length (payload (model_collaborators RefAlgoContentGabby)
        \<lparr>fr = None, mr = None,
         cr = Some \<lparr>hash = replicate 32 0x33, algo = RefAlgoContentGabby\<rparr>\<rparr>) = 32"
proof -
  let ?L = "model_collaborators RefAlgoContentGabby"
  let ?two = "\<lparr>fr = Some (replicate 32 (0x11 :: byte), RefAlgoFeedGabby),
               mr = Some (replicate 32 (0x22 :: byte), RefAlgoMessageGabby), cr = None\<rparr>"
  let ?f = "\<lparr>fr = Some (replicate 32 (0x11 :: byte), RefAlgoFeedGabby),
             mr = None :: (byte list \<times> RefAlgo) option, cr = None\<rparr>"
  let ?m = "\<lparr>fr = None :: (byte list \<times> RefAlgo) option,
             mr = Some (replicate 32 (0x22 :: byte), RefAlgoMessageGabby), cr = None\<rparr>"
  let ?c = "\<lparr>fr = None :: (byte list \<times> RefAlgo) option,
             mr = None :: (byte list \<times> RefAlgo) option,
             cr = Some \<lparr>hash = replicate 32 0x33, algo = RefAlgoContentGabby\<rparr>\<rparr>"
  have sf: "collaborator_payloads_ok ?L ?f" and sm: "collaborator_payloads_ok ?L ?m"
    and sc: "collaborator_payloads_ok ?L ?c"
    by (simp_all add: collaborator_payloads_ok_def model_collaborators_def)
  have mf: "MarshalBinary ?L ?f = Return (0x01 # replicate 32 0x11, None)"
    by (simp add: MarshalBinary_def valid_def model_collaborators_def)
  have mm: "MarshalBinary ?L ?m = Return (0x02 # replicate 32 0x22, None)"
    by (simp add: MarshalBinary_def valid_def model_collaborators_def)
  have mc: "MarshalBinary ?L ?c = Return (0x03 # replicate 32 0x33, None)"
    by (simp add: MarshalBinary_def valid_def model_collaborators_def)
  have n: "b # replicate 32 (x :: byte) \<noteq> []" for b x
    by simp
  note w = MarshalBinary_wire_form
  from w [of ?two ?L ?f "0x01 # replicate 32 0x11"] w [of ?two ?L ?m "0x02 # replicate 32 0x22"]
    w [of ?two ?L ?c "0x03 # replicate 32 0x33"] sf sm sc mf mm mc n
  show ?thesis by blast
qed

subsection \<open>Rejected inputs\<close>

text \<open>
  C3. For every byte sequence whose length is not 33, \<^verbatim>\<open>UnmarshalBinary\<close> fails with
  the invalid-length error, whatever the bytes, the receiver and the collaborators
  are; the receiver is returned as it was.
\<close>

theorem UnmarshalBinary_invalid_length:
  "length data \<noteq> 33 \<Longrightarrow> UnmarshalBinary L ref data = (ref, Some (InvalidLength (length data)))"
  by (simp add: UnmarshalBinary_def binrefSize_def)

text \<open>The lengths 0, 1, 32, 34 and 100.\<close>

theorem UnmarshalBinary_invalid_length_witness:
  "UnmarshalBinary (model_collaborators RefAlgoContentGabby) zeroBinaryRef []
     = (zeroBinaryRef, Some (InvalidLength (length ([] :: byte list))))
   \<and> UnmarshalBinary (model_collaborators RefAlgoContentGabby) zeroBinaryRef [0x01]
     = (zeroBinaryRef, Some (InvalidLength (length [0x01 :: byte])))
   \<and> UnmarshalBinary (model_collaborators RefAlgoContentGabby) zeroBinaryRef (0x01 # replicate 31 0)
     = (zeroBinaryRef, Some (InvalidLength (length (0x01 # replicate 31 (0 :: byte)))))
   \<and> UnmarshalBinary (model_collaborators RefAlgoContentGabby) zeroBinaryRef (0x01 # replicate 33 0)
     = (zeroBinaryRef, Some (InvalidLength (length (0x01 # replicate 33 (0 :: byte)))))
   \<and> UnmarshalBinary (model_collaborators RefAlgoContentGabby) zeroBinaryRef (0x01 # replicate 99 0)
     = (zeroBinaryRef, Some (InvalidLength (length (0x01 # replicate 99 (0 :: byte)))))"
proof -
  have h0: "length ([] :: byte list) \<noteq> 33" by simp
  have h1: "length [0x01 :: byte] \<noteq> 33" by simp
  have h32: "length (0x01 # replicate 31 (0 :: byte)) \<noteq> 33" by simp
  have h34: "length (0x01 # replicate 33 (0 :: byte)) \<noteq> 33" by simp
  have h100: "length (0x01 # replicate 99 (0 :: byte)) \<noteq> 33" by simp
  note u = UnmarshalBinary_invalid_length
  from u [OF h0] u [OF h1] u [OF h32] u [OF h34] u [OF h100] show ?thesis
    by (intro conjI)
qed

text \<open>
  C4. For every 33-byte sequence whose first byte is none of \<open>0x01\<close>, \<open>0x02\<close>,
  \<open>0x03\<close>, \<^verbatim>\<open>UnmarshalBinary\<close> fails with the unknown-discriminant error, whatever
  the other 32 bytes, the receiver and the collaborators are.
\<close>

theorem UnmarshalBinary_unknown_discriminant:
  "length data = 33 \<Longrightarrow> data ! 0 \<notin> {0x01, 0x02, 0x03}
     \<Longrightarrow> UnmarshalBinary L ref data = (ref, Some (UnknownDiscriminant (data ! 0)))"
  by (simp add: UnmarshalBinary_def binrefSize_def)

text \<open>The first bytes \<open>0x00\<close>, \<open>0x04\<close> and \<open>0xFF\<close>.\<close>

theorem UnmarshalBinary_unknown_discriminant_witness:
  "UnmarshalBinary (model_collaborators RefAlgoContentGabby) zeroBinaryRef (0x00 # replicate 32 0x07)
     = (zeroBinaryRef, Some (UnknownDiscriminant ((0x00 # replicate 32 0x07) ! 0)))
   \<and> UnmarshalBinary (model_collaborators RefAlgoContentGabby) zeroBinaryRef (0x04 # replicate 32 0x07)
     = (zeroBinaryRef, Some (UnknownDiscriminant ((0x04 # replicate 32 0x07) ! 0)))
   \<and> UnmarshalBinary (model_collaborators RefAlgoContentGabby) zeroBinaryRef (0xFF # replicate 32 0x07)
     = (zeroBinaryRef, Some (UnknownDiscriminant ((0xFF # replicate 32 0x07) ! 0)))"
proof -
  have l: "length (b # replicate 32 (0x07 :: byte)) = 33" for b
    by simp
  have d0: "(0x00 # replicate 32 (0x07 :: byte)) ! 0 \<notin> {0x01, 0x02, 0x03}" by simp
  have d4: "(0x04 # replicate 32 (0x07 :: byte)) ! 0 \<notin> {0x01, 0x02, 0x03}" by simp
  have dF: "(0xFF # replicate 32 (0x07 :: byte)) ! 0 \<notin> {0x01, 0x02, 0x03}" by simp
  note u = UnmarshalBinary_unknown_discriminant
  from u [OF l d0] u [OF l d4] u [OF l dF] show ?thesis
    by (intro conjI)
qed

text \<open>
  C5. \<^verbatim>\<open>MarshalBinary\<close> on a reference whose only member is a content reference of
  an algorithm other than the supported one fails with the unsupported-content-algorithm
  error; and \<^verbatim>\<open>UnmarshalBinary\<close> of 33 bytes with first byte \<open>0x03\<close> fails with
  the invalid-content-algorithm error whenever the content reference that the
  collaborator decodes has an algorithm other than the supported one.
\<close>

theorem content_algorithm_gate:
  "(fr ref = None \<and> mr ref = None \<and> cr ref = Some c \<and> algo c \<noteq> RefAlgoContentGabby
      \<longrightarrow> MarshalBinary L ref = Return ([], Some (UnsupportedContentAlgorithm (algo c))))
   \<and> (length data = 33 \<and> data ! 0 = 0x03
        \<and> ContentRef_UnmarshalBinary L zeroContentRef (0x02 # drop 1 data) = (newCR, None)
        \<and> Algo newCR \<noteq> RefAlgoContentGabby
      \<longrightarrow> UnmarshalBinary L ref' data = (ref', Some (InvalidContentAlgorithm (algo newCR))))"
  by (simp add: MarshalBinary_def valid_def UnmarshalBinary_def binrefSize_def)

text \<open>
  A content reference of the algorithm "sha256", and a content codec whose tag
  \<open>0x02\<close> stands for "sha256".
\<close>

theorem content_algorithm_gate_witness:
  "MarshalBinary (model_collaborators ''sha256'')
      \<lparr>fr = None, mr = None, cr = Some \<lparr>hash = replicate 32 0x33, algo = ''sha256''\<rparr>\<rparr>
     = Return ([], Some (UnsupportedContentAlgorithm ''sha256''))
   \<and> UnmarshalBinary (model_collaborators ''sha256'') zeroBinaryRef (0x03 # replicate 32 0x33)
     = (zeroBinaryRef, Some (InvalidContentAlgorithm ''sha256''))"
proof -
  let ?L = "model_collaborators ''sha256''"
  let ?c = "\<lparr>hash = replicate 32 (0x33 :: byte), algo = ''sha256''\<rparr>"
  let ?r = "\<lparr>fr = None :: (byte list \<times> RefAlgo) option,
             mr = None :: (byte list \<times> RefAlgo) option, cr = Some ?c\<rparr>"
  let ?d = "0x03 # replicate 32 (0x33 :: byte)"
  have a: "fr ?r = None \<and> mr ?r = None \<and> cr ?r = Some ?c \<and> algo ?c \<noteq> RefAlgoContentGabby"
    by (simp add: RefAlgoContentGabby_def)
  have b: "length ?d = 33 \<and> ?d ! 0 = 0x03
      \<and> ContentRef_UnmarshalBinary ?L zeroContentRef (0x02 # drop 1 ?d) = (?c, None)
      \<and> Algo ?c \<noteq> RefAlgoContentGabby"
    by (simp add: model_collaborators_def Algo_def RefAlgoContentGabby_def)
  from content_algorithm_gate [of ?r ?c ?L ?d ?c zeroBinaryRef] a b
  have "MarshalBinary ?L ?r = Return ([], Some (UnsupportedContentAlgorithm (algo ?c)))"
    and "UnmarshalBinary ?L zeroBinaryRef ?d
      = (zeroBinaryRef, Some (InvalidContentAlgorithm (algo ?c)))"
    by blast+
  then show ?thesis by simp
qed

text \<open>
  C6. For every reference in which two or more of the three members are set, both
  \<^verbatim>\<open>valid\<close> and \<^verbatim>\<open>MarshalBinary\<close> fail with the multiple-references error.
\<close>

theorem multiple_members_rejected:
  "2 \<le> members ref \<Longrightarrow>
     valid ref = (RefTypeUndefined, Some MultipleReferencesSet)
     \<and> MarshalBinary L ref = Return ([], Some MultipleReferencesSet)"
  by (auto simp: members_def valid_def MarshalBinary_def split: if_splits)

text \<open>A reference with both a feed and a content member.\<close>

theorem multiple_members_rejected_witness:
  "valid \<lparr>fr = Some (replicate 32 (0x11 :: byte), RefAlgoFeedGabby),
          mr = None :: (byte list \<times> RefAlgo) option,
          cr = Some \<lparr>hash = replicate 32 0x33, algo = RefAlgoContentGabby\<rparr>\<rparr>
     = (RefTypeUndefined, Some MultipleReferencesSet)
   \<and> MarshalBinary (model_collaborators RefAlgoContentGabby)
       \<lparr>fr = Some (replicate 32 0x11, RefAlgoFeedGabby), mr = None,
        cr = Some \<lparr>hash = replicate 32 0x33, algo = RefAlgoContentGabby\<rparr>\<rparr>
     = Return ([], Some MultipleReferencesSet)"
proof -
  have "2 \<le> members \<lparr>fr = Some (replicate 32 (0x11 :: byte), RefAlgoFeedGabby),
          mr = None :: (byte list \<times> RefAlgo) option,
          cr = Some \<lparr>hash = replicate 32 0x33, algo = RefAlgoContentGabby\<rparr>\<rparr>"
    by (simp add: members_def)
  from multiple_members_rejected [OF this] show ?thesis .
qed

subsection \<open>At most one member\<close>

lemma only_kind_members: "only_kind t ref \<Longrightarrow> members ref \<le> 1"
  by (auto simp: only_kind_def members_def)

lemma UnmarshalBinary_error_any_receiver:
  "snd (UnmarshalBinary L ref data) = snd (UnmarshalBinary L ref' data)"
  by (simp add: UnmarshalBinary_def Let_def split: prod.splits option.splits)

lemma UnmarshalBinary_only_kind:
  assumes "only_kind t ref" and "snd (UnmarshalBinary L ref data) \<noteq> None \<or> data ! 0 = t"
  shows "only_kind t (fst (UnmarshalBinary L ref data))"
  using assms
  by (auto simp: UnmarshalBinary_def Let_def only_kind_def
      split: prod.splits option.splits if_splits)

lemma UnmarshalBinary_seq_only_kind:
  "only_kind t ref \<Longrightarrow> \<forall>data \<in> set ds. decodes L data \<longrightarrow> data ! 0 = t
     \<Longrightarrow> only_kind t (UnmarshalBinary_seq L ref ds)"
proof (induction ds arbitrary: ref)
  case Nil
  then show ?case by simp
next
  case (Cons data rest)
  have "snd (UnmarshalBinary L ref data) \<noteq> None \<or> data ! 0 = t"
    using Cons.prems(2) UnmarshalBinary_error_any_receiver [of L ref data zeroBinaryRef]
    by (auto simp: decodes_def)
  from UnmarshalBinary_only_kind [OF Cons.prems(1) this] Cons.prems(2) Cons.IH
  show ?case by simp
qed

text \<open>
  C7, as the code has it. \<^verbatim>\<open>fromRef\<close> (and \<^verbatim>\<open>NewBinaryRef\<close>, which calls
  it) and \<^verbatim>\<open>refFromPubKey\<close> return a reference
  with at most one member set; and after any sequence of \<^verbatim>\<open>UnmarshalBinary\<close> calls
  on the zero value, at most one member is set provided the inputs that decode all
  carry the same discriminant byte. (\<^verbatim>\<open>UnmarshalBinary\<close> sets the member that the
  discriminant selects and leaves the other two as they are.)
\<close>

theorem at_most_one_member_reachable:
  "members (fst (fromRef r)) \<le> 1
   \<and> members (fst (NewBinaryRef r)) \<le> 1
   \<and> (refFromPubKey L pk = (Some br, e) \<longrightarrow> members br \<le> 1)
   \<and> ((\<forall>data \<in> set ds. decodes L data \<longrightarrow> data ! 0 = t)
        \<longrightarrow> members (UnmarshalBinary_seq L zeroBinaryRef ds) \<le> 1)"
proof (intro conjI impI)
  show "members (fst (fromRef r)) \<le> 1"
    by (cases r) (simp_all add: fromRef_def members_def zeroBinaryRef_def)
next
  show "members (fst (NewBinaryRef r)) \<le> 1"
    by (cases r) (simp_all add: NewBinaryRef_def fromRef_def members_def zeroBinaryRef_def)
next
  assume "refFromPubKey L pk = (Some br, e)"
  then show "members br \<le> 1"
    by (auto simp: refFromPubKey_def members_def split: if_splits prod.splits)
next
  assume a: "\<forall>data \<in> set ds. decodes L data \<longrightarrow> data ! 0 = t"
  have "only_kind t (zeroBinaryRef :: ('f, 'm) BinaryRef)"
    by (simp add: only_kind_def zeroBinaryRef_def)
  from only_kind_members [OF UnmarshalBinary_seq_only_kind [OF this a]]
  show "members (UnmarshalBinary_seq L zeroBinaryRef ds) \<le> 1" .
qed

text \<open>
  A feed reference from \<^verbatim>\<open>fromRef\<close>, one from \<^verbatim>\<open>refFromPubKey\<close>, and the zero
  value after decoding a feed reference, an input that is too short, an input with
  an unknown discriminant and a second feed reference.
\<close>

theorem at_most_one_member_reachable_witness:
  "members (fst (fromRef (IsFeedRef (replicate 32 (0x11 :: byte), RefAlgoFeedGabby)
       :: (byte list \<times> RefAlgo, byte list \<times> RefAlgo) Ref))) \<le> 1
   \<and> refFromPubKey (model_collaborators RefAlgoContentGabby) (replicate 32 0)
       = (Some \<lparr>fr = Some (replicate 32 0, RefAlgoFeedGabby), mr = None, cr = None\<rparr>, None)
   \<and> members \<lparr>fr = Some (replicate 32 (0 :: byte), RefAlgoFeedGabby),
               mr = None :: (byte list \<times> RefAlgo) option, cr = None\<rparr> \<le> 1
   \<and> members (UnmarshalBinary_seq (model_collaborators RefAlgoContentGabby) zeroBinaryRef
        [0x01 # replicate 32 0x11, [0x02, 0x00], 0x09 # replicate 32 0, 0x01 # replicate 32 0x44])
       \<le> 1"
proof -
  let ?L = "model_collaborators RefAlgoContentGabby"
  let ?ds = "[0x01 # replicate 32 0x11, [0x02, 0x00], 0x09 # replicate 32 0,
              0x01 # replicate 32 (0x44 :: byte)]"
  let ?br = "\<lparr>fr = Some (replicate 32 (0 :: byte), RefAlgoFeedGabby),
              mr = None :: (byte list \<times> RefAlgo) option, cr = None\<rparr>"
  have p: "refFromPubKey ?L (replicate 32 0) = (Some ?br, None)"
    by (simp add: refFromPubKey_def PublicKeySize_def model_collaborators_def)
  have d: "\<forall>data \<in> set ?ds. decodes ?L data \<longrightarrow> data ! 0 = 0x01"
    by (simp add: decodes_def UnmarshalBinary_def binrefSize_def)
  from at_most_one_member_reachable
    [of "IsFeedRef (replicate 32 (0x11 :: byte), RefAlgoFeedGabby)" ?L "replicate 32 0" ?br None
      ?ds "0x01"] p d
  show ?thesis by blast
qed

text \<open>
  C7, as it is stated, fails: decoding a feed reference and then a message reference
  into the same receiver, starting from the zero value, both succeed and leave two
  members set, a state that \<^verbatim>\<open>valid\<close> rejects.
\<close>

theorem unmarshal_twice_counterexample:
  "decodes (model_collaborators RefAlgoContentGabby) (0x01 # replicate 32 0)
   \<and> decodes (model_collaborators RefAlgoContentGabby) (0x02 # replicate 32 0)
   \<and> \<not> members (UnmarshalBinary_seq (model_collaborators RefAlgoContentGabby) zeroBinaryRef
          [0x01 # replicate 32 0, 0x02 # replicate 32 0]) \<le> 1
   \<and> valid (UnmarshalBinary_seq (model_collaborators RefAlgoContentGabby) zeroBinaryRef
          [0x01 # replicate 32 0, 0x02 # replicate 32 0])
       = (RefTypeUndefined, Some MultipleReferencesSet)"
  by (simp add: decodes_def UnmarshalBinary_def binrefSize_def model_collaborators_def
      members_def valid_def zeroBinaryRef_def)

subsection \<open>Construction from a public key\<close>

text \<open>
  C8. \<^verbatim>\<open>refFromPubKey\<close> fails with the invalid-public-key error (and returns the
  nil pointer) for every input whose length is not 32; and for the public key of 32
  zero bytes it succeeds with a reference whose only member is a feed reference and
  whose \<^verbatim>\<open>MarshalBinary\<close> is the byte \<open>0x01\<close> followed by 32 zero bytes, for any
  library whose feed parser meets its contract.
\<close>

theorem refFromPubKey_spec:
  "(length pk \<noteq> 32 \<longrightarrow> refFromPubKey L pk = (None, Some InvalidPublicKeyLength))
   \<and> (feed_parser_ok L \<longrightarrow>
        (\<exists>f. refFromPubKey L (replicate 32 0) = (Some \<lparr>fr = Some f, mr = None, cr = None\<rparr>, None)
           \<and> MarshalBinary L \<lparr>fr = Some f, mr = None, cr = None\<rparr>
               = Return (0x01 # replicate 32 0, None)))"
proof (intro conjI impI)
  assume "length pk \<noteq> 32"
  then show "refFromPubKey L pk = (None, Some InvalidPublicKeyLength)"
    by (simp add: refFromPubKey_def PublicKeySize_def)
next
  assume ok: "feed_parser_ok L"
  let ?p = "NewFeedRefFromBytes L (replicate 32 0) RefAlgoFeedGabby"
  from ok have p: "snd ?p = None" "PubKey L (fst ?p) = replicate 32 0"
    by (simp_all add: feed_parser_ok_def)
  have "refFromPubKey L (replicate 32 0)
      = (Some \<lparr>fr = Some (fst ?p), mr = None, cr = None\<rparr>, None)"
    using p(1) by (cases ?p) (simp add: refFromPubKey_def PublicKeySize_def)
  moreover have "MarshalBinary L \<lparr>fr = Some (fst ?p), mr = None, cr = None\<rparr>
      = Return (0x01 # replicate 32 0, None)"
    using p(2) by (simp add: MarshalBinary_def valid_def)
  ultimately show "\<exists>f. refFromPubKey L (replicate 32 0)
        = (Some \<lparr>fr = Some f, mr = None, cr = None\<rparr>, None)
      \<and> MarshalBinary L \<lparr>fr = Some f, mr = None, cr = None\<rparr>
          = Return (0x01 # replicate 32 0, None)"
    by blast
qed

text \<open>Keys of 0, 31 and 33 bytes, and the key of 32 zero bytes.\<close>

theorem refFromPubKey_spec_witness:
  "refFromPubKey (model_collaborators RefAlgoContentGabby) []
     = (None, Some InvalidPublicKeyLength)
   \<and> refFromPubKey (model_collaborators RefAlgoContentGabby) (replicate 31 0)
     = (None, Some InvalidPublicKeyLength)
   \<and> refFromPubKey (model_collaborators RefAlgoContentGabby) (replicate 33 0)
     = (None, Some InvalidPublicKeyLength)
   \<and> (\<exists>f. refFromPubKey (model_collaborators RefAlgoContentGabby) (replicate 32 0)
           = (Some \<lparr>fr = Some f, mr = None, cr = None\<rparr>, None)
         \<and> MarshalBinary (model_collaborators RefAlgoContentGabby)
             \<lparr>fr = Some f, mr = None, cr = None\<rparr>
           = Return (0x01 # replicate 32 0, None))"
proof -
  let ?L = "model_collaborators RefAlgoContentGabby"
  have h0: "length ([] :: byte list) \<noteq> 32" by simp
  have h31: "length (replicate 31 (0 :: byte)) \<noteq> 32" by simp
  have h33: "length (replicate 33 (0 :: byte)) \<noteq> 32" by simp
  have ok: "feed_parser_ok ?L" by (rule model_feed_parser_ok)
  from refFromPubKey_spec [of "[]" ?L] refFromPubKey_spec [of "replicate 31 0" ?L]
    refFromPubKey_spec [of "replicate 33 0" ?L] h0 h31 h33 ok
  show ?thesis by blast
qed

subsection \<open>A failed decode leaves the receiver as it was\<close>

text \<open>
  C10. Whenever \<^verbatim>\<open>UnmarshalBinary\<close> returns an error (wrong length, unknown
  discriminant, a failure of a collaborator's parser, or a content algorithm other
  than the supported one), the three members of the receiver are as they were before
  the call, whatever the collaborators are.
\<close>

theorem UnmarshalBinary_error_keeps_receiver:
  "snd (UnmarshalBinary L ref data) \<noteq> None \<Longrightarrow> fst (UnmarshalBinary L ref data) = ref"
  by (auto simp: UnmarshalBinary_def Let_def split: if_splits prod.splits option.splits)

text \<open>
  A receiver holding a message reference, and the four kinds of error: a wrong
  length, an unknown discriminant, a feed parser that fails, and a content codec
  whose tag \<open>0x02\<close> stands for "sha256".
\<close>

theorem UnmarshalBinary_error_keeps_receiver_witness:
  "fst (UnmarshalBinary (model_collaborators RefAlgoContentGabby)
         \<lparr>fr = None, mr = Some (replicate 32 0x22, RefAlgoMessageGabby), cr = None\<rparr>
         [0x01, 0x02])
     = \<lparr>fr = None, mr = Some (replicate 32 0x22, RefAlgoMessageGabby), cr = None\<rparr>
   \<and> fst (UnmarshalBinary (model_collaborators RefAlgoContentGabby)
         \<lparr>fr = None, mr = Some (replicate 32 0x22, RefAlgoMessageGabby), cr = None\<rparr>
         (0x04 # replicate 32 0))
     = \<lparr>fr = None, mr = Some (replicate 32 0x22, RefAlgoMessageGabby), cr = None\<rparr>
   \<and> fst (UnmarshalBinary
         ((model_collaborators RefAlgoContentGabby)
            \<lparr>NewFeedRefFromBytes :=
               (\<lambda>b al. ((replicate 32 0, []), Some (External ''malformed key'')))\<rparr>)
         \<lparr>fr = None, mr = Some (replicate 32 0x22, RefAlgoMessageGabby), cr = None\<rparr>
         (0x01 # replicate 32 0))
     = \<lparr>fr = None, mr = Some (replicate 32 0x22, RefAlgoMessageGabby), cr = None\<rparr>
   \<and> fst (UnmarshalBinary (model_collaborators ''sha256'')
         \<lparr>fr = None, mr = Some (replicate 32 0x22, RefAlgoMessageGabby), cr = None\<rparr>
         (0x03 # replicate 32 0))
     = \<lparr>fr = None, mr = Some (replicate 32 0x22, RefAlgoMessageGabby), cr = None\<rparr>"
proof -
  let ?L = "model_collaborators RefAlgoContentGabby"
  let ?F = "?L\<lparr>NewFeedRefFromBytes :=
               (\<lambda>b al. ((replicate 32 0, []), Some (External ''malformed key'')))\<rparr>"
  let ?r = "\<lparr>fr = None :: (byte list \<times> RefAlgo) option,
             mr = Some (replicate 32 (0x22 :: byte), RefAlgoMessageGabby), cr = None\<rparr>"
  have e1: "snd (UnmarshalBinary ?L ?r [0x01, 0x02]) \<noteq> None"
    by (simp add: UnmarshalBinary_def binrefSize_def)
  have e2: "snd (UnmarshalBinary ?L ?r (0x04 # replicate 32 0)) \<noteq> None"
    by (simp add: UnmarshalBinary_def binrefSize_def)
  have e3: "snd (UnmarshalBinary ?F ?r (0x01 # replicate 32 0)) \<noteq> None"
    by (simp add: UnmarshalBinary_def binrefSize_def)
  have e4: "snd (UnmarshalBinary (model_collaborators ''sha256'') ?r (0x03 # replicate 32 0))
      \<noteq> None"
    by (simp add: UnmarshalBinary_def binrefSize_def model_collaborators_def Algo_def
        RefAlgoContentGabby_def)
  note k = UnmarshalBinary_error_keeps_receiver
  from k [OF e1] k [OF e2] k [OF e3] k [OF e4] show ?thesis
    by (intro conjI)
qed

subsection \<open>The undefined reference\<close>

text \<open>
  C9. \<^verbatim>\<open>MarshalBinary\<close> on the reference with all three members unset returns no
  bytes and no error, whatever the collaborators are.
\<close>

theorem MarshalBinary_undefined:
  "MarshalBinary L \<lparr>fr = None, mr = None, cr = None\<rparr> = Return ([], None)"
  by (simp add: MarshalBinary_def valid_def)

end
